theory Spec2Isabelle
  imports Complex_Main
begin

section \<open>Track handlers of ymidi (src/ymidi/handlers/track.py)\<close>

text \<open>
  Every handler of the module takes the container that is altered, the event that is
  added and the index of the event, mutates one of the first two and returns either
  nothing (Python's \<open>None\<close>) or \<open>True\<close>. In the embedding a handler returns the
  object it mutated together with its return value, or the exception it raised.
\<close>

subsection \<open>Exceptions and return values\<close>

datatype error = NameError | IndexError | AttributeError | TypeError | ZeroDivisionError

datatype retval = PyNone | PyTrue

fun truthy :: "retval \<Rightarrow> bool" where
  "truthy PyNone = False"
| "truthy PyTrue = True"

type_synonym 's result = "error + 's \<times> retval"

text \<open>
  The module header says: a handler that returns anything that does not evaluate to
  false stops the handle operation. A handler that raises returns nothing.
\<close>

fun returns_truthy :: "'s result \<Rightarrow> bool" where
  "returns_truthy (Inl err) = False"
| "returns_truthy (Inr (s, v)) = truthy v"

fun returns_None :: "'s result \<Rightarrow> bool" where
  "returns_None (Inl err) = False"
| "returns_None (Inr (s, v)) = (v = PyNone)"

subsection \<open>Events, tracks and patterns\<close>

text \<open>
  The event classes, \<open>Track\<close> and \<open>Pattern\<close> are declared outside this module; the
  records below have one field for each attribute the handlers read or write. The
  time values (milliseconds, Python numbers) are kept abstract in the type \<open>'ms\<close>:
  the handlers only add, subtract and compare them.

  The payload of an event is its variant: \<open>TrackName text\<close>, \<open>InstrumentName text\<close>,
  \<open>SetTempo tempo\<close>, \<open>TimeSignature numerator denominator\<close>,
  \<open>StartPattern divisions num_tracks\<close>.
\<close>

datatype kind =
    TrackName string
  | InstrumentName string
  | SetTempo int
  | TimeSignature int int
  | StartPattern int int
  | EndOfTrack
  | OtherEvent

record 'ms event =
  delta :: int
  delta_time :: 'ms
  tick :: int
  time :: 'ms
  exit_time :: 'ms
  exit_delta :: 'ms
  kind :: kind

text \<open>
  Attribute reads on an event are duck typed: reading an attribute the variant does
  not carry raises \<open>AttributeError\<close>.
\<close>

fun attr_text :: "kind \<Rightarrow> error + string" where
  "attr_text (TrackName s) = Inr s"
| "attr_text (InstrumentName s) = Inr s"
| "attr_text k = Inl AttributeError"

fun attr_tempo :: "kind \<Rightarrow> error + int" where
  "attr_tempo (SetTempo t) = Inr t"
| "attr_tempo k = Inl AttributeError"

fun attr_numerator :: "kind \<Rightarrow> error + int" where
  "attr_numerator (TimeSignature n d) = Inr n"
| "attr_numerator k = Inl AttributeError"

fun attr_denominator :: "kind \<Rightarrow> error + int" where
  "attr_denominator (TimeSignature n d) = Inr d"
| "attr_denominator k = Inl AttributeError"

fun attr_divisions :: "kind \<Rightarrow> error + int" where
  "attr_divisions (StartPattern d n) = Inr d"
| "attr_divisions k = Inl AttributeError"

fun attr_num_tracks :: "kind \<Rightarrow> error + int" where
  "attr_num_tracks (StartPattern d n) = Inr n"
| "attr_num_tracks k = Inl AttributeError"

text \<open>
  A track. \<open>priv_mpb\<close> is the attribute \<open>_mpb\<close> (microseconds per beat) that
  \<open>event_time\<close> and \<open>event_delta_time\<close> read, \<open>tempo\<close> the attribute that
  \<open>determine_delta\<close> reads. \<open>msb\<close> is the attribute that \<open>set_tempo\<close> assigns and
  \<open>track\<close> the attribute that \<open>determine_delta\<close> reads in its absolute-time branch;
  no other line of the module mentions either, so they are optional: \<open>None\<close> is an
  object without the attribute, where a read raises \<open>AttributeError\<close> and an
  assignment creates it.
\<close>

record 'ms track =
  events :: "'ms event list"
  name :: string
  instrument :: string
  tempo :: int
  priv_mpb :: int
  msb :: "int option"
  division :: int
  track :: "int option"
  timesig_num :: int
  timesig_den :: int
  start_time :: 'ms

text \<open>
  A pattern. \<open>divisions\<close> is the attribute \<open>start_pattern\<close> assigns, \<open>priv_division\<close>
  the attribute \<open>_division\<close> that \<open>set_division\<close> reads. No other line of the module
  mentions \<open>_division\<close> and no line assigns it, so it is optional as \<open>msb\<close> and
  \<open>track\<close> are: \<open>None\<close> is a pattern without the attribute, where the read raises
  \<open>AttributeError\<close>.
\<close>

record 'ms pattern =
  tracks :: "'ms track list"
  divisions :: int
  priv_division :: "int option"
  track_index :: int

subsection \<open>Indexing and the names bound in the module\<close>

text \<open>
  \<open>container[i]\<close> on the sequence a container holds, with Python's rule for negative
  indices; out of range it raises \<open>IndexError\<close>.
\<close>

definition getitem :: "'a list \<Rightarrow> int \<Rightarrow> error + 'a" where
  "getitem xs i =
     (if 0 \<le> i \<and> i < int (length xs) then Inr (xs ! nat i)
      else if i < 0 \<and> - int (length xs) \<le> i then Inr (xs ! nat (int (length xs) + i))
      else Inl IndexError)"

text \<open>
  \<open>typing.TYPE_CHECKING\<close> is false when the module runs, so the import of \<open>Track\<close>
  and \<open>Pattern\<close> under \<open>if TYPE_CHECKING:\<close> binds neither name. The annotations that
  mention them are never evaluated (\<open>from __future__ import annotations\<close>); a use of
  one of the names in a function body is a lookup of an unbound global.
\<close>

definition TYPE_CHECKING :: bool where
  "TYPE_CHECKING = False"

definition module_globals :: "string list" where
  "module_globals =
     [''annotations'', ''TYPE_CHECKING'', ''BaseEvent'', ''StartPattern'', ''EndOfTrack'',
      ''InstrumentName'', ''SetTempo'', ''TimeSignature'', ''TrackName'',
      ''de_to_ms'', ''ms_to_de'', ''ytime'']
     @ (if TYPE_CHECKING then [''Track'', ''Pattern''] else [])
     @ [''track_name'', ''instrument_name'', ''set_tempo'', ''time_signature'',
        ''global_tempo'', ''start_pattern'', ''create_tracks'', ''sort_events'',
        ''stop_track'', ''event_tick'', ''event_time'', ''event_delta_time'',
        ''determine_delta'', ''set_division'', ''rehandle'', ''time_profile'']"

definition load_global :: "string \<Rightarrow> error + unit" where
  "load_global n = (if n \<in> set module_globals then Inr () else Inl NameError)"

subsection \<open>Metadata handlers of a track\<close>

definition track_name :: "'ms track \<Rightarrow> 'ms event \<Rightarrow> int \<Rightarrow> ('ms track) result" where
  "track_name trk event index =
     (case attr_text (kind event) of
        Inl err \<Rightarrow> Inl err
      | Inr s \<Rightarrow> Inr (trk\<lparr>name := s\<rparr>, PyNone))"

definition instrument_name :: "'ms track \<Rightarrow> 'ms event \<Rightarrow> int \<Rightarrow> ('ms track) result" where
  "instrument_name trk event index =
     (case attr_text (kind event) of
        Inl err \<Rightarrow> Inl err
      | Inr s \<Rightarrow> Inr (trk\<lparr>instrument := s\<rparr>, PyNone))"

definition set_tempo :: "'ms track \<Rightarrow> 'ms event \<Rightarrow> int \<Rightarrow> ('ms track) result" where
  "set_tempo trk event index =
     (case attr_tempo (kind event) of
        Inl err \<Rightarrow> Inl err
      | Inr t \<Rightarrow> Inr (trk\<lparr>msb := Some t\<rparr>, PyNone))"

definition time_signature :: "'ms track \<Rightarrow> 'ms event \<Rightarrow> int \<Rightarrow> ('ms track) result" where
  "time_signature trk event index =
     (case attr_denominator (kind event) of
        Inl err \<Rightarrow> Inl err
      | Inr d \<Rightarrow>
          (case attr_numerator (kind event) of
             Inl err \<Rightarrow> Inl err
           | Inr n \<Rightarrow> Inr (trk\<lparr>timesig_den := d, timesig_num := n\<rparr>, PyNone)))"

subsection \<open>Handlers of a pattern\<close>

text \<open>
  \<open>global_tempo\<close> loops over the global name \<open>Pattern\<close>, not over its parameter. The
  name is looked up first; were it bound to the class, a class object is not iterable.
\<close>

definition global_tempo :: "'ms pattern \<Rightarrow> 'ms event \<Rightarrow> int \<Rightarrow> ('ms pattern) result" where
  "global_tempo trk event index =
     (case load_global ''Pattern'' of
        Inl err \<Rightarrow> Inl err
      | Inr u \<Rightarrow> Inl TypeError)"

definition start_pattern :: "'ms pattern \<Rightarrow> 'ms event \<Rightarrow> int \<Rightarrow> ('ms pattern) result" where
  "start_pattern pattern event index =
     (case attr_divisions (kind event) of
        Inl err \<Rightarrow> Inl err
      | Inr d \<Rightarrow> Inr (pattern\<lparr>divisions := d\<rparr>, PyNone))"

text \<open>
  The loop of \<open>create_tracks\<close>: each round evaluates \<open>Track()\<close>, a lookup of the global
  \<open>Track\<close> followed by the call, and appends the result. The constructor and
  \<open>Pattern.append\<close> are declared outside the module: \<open>mk\<close> is the track the constructor
  builds and \<open>app\<close> the append method.
\<close>

fun create_loop ::
  "'ms track \<Rightarrow> ('ms pattern \<Rightarrow> 'ms track \<Rightarrow> error + 'ms pattern) \<Rightarrow> nat \<Rightarrow> 'ms pattern
     \<Rightarrow> error + 'ms pattern" where
  "create_loop mk app 0 pattern = Inr pattern"
| "create_loop mk app (Suc n) pattern =
     (case load_global ''Track'' of
        Inl err \<Rightarrow> Inl err
      | Inr u \<Rightarrow>
          (case app pattern mk of
             Inl err \<Rightarrow> Inl err
           | Inr pattern' \<Rightarrow> create_loop mk app n pattern'))"

text \<open>\<open>range(n)\<close> is empty for a negative \<open>n\<close>, hence \<open>nat n\<close> rounds.\<close>

definition create_tracks ::
  "'ms track \<Rightarrow> ('ms pattern \<Rightarrow> 'ms track \<Rightarrow> error + 'ms pattern)
     \<Rightarrow> 'ms pattern \<Rightarrow> 'ms event \<Rightarrow> int \<Rightarrow> ('ms pattern) result" where
  "create_tracks mk app pattern event index =
     (case attr_num_tracks (kind event) of
        Inl err \<Rightarrow> Inl err
      | Inr n \<Rightarrow>
          (case create_loop mk app (nat n) pattern of
             Inl err \<Rightarrow> Inl err
           | Inr pattern' \<Rightarrow> Inr (pattern', PyNone)))"

text \<open>
  \<open>sort_events\<close> appends the event to the track under the cursor. \<open>Track.append\<close> is
  declared outside the module: \<open>tapp\<close> is that method. The track is mutated in place,
  so the pattern holds the appended track at the position it read.
\<close>

definition pos :: "'a list \<Rightarrow> int \<Rightarrow> nat" where
  "pos xs i = (if 0 \<le> i then nat i else nat (int (length xs) + i))"

definition sort_events ::
  "('ms track \<Rightarrow> 'ms event \<Rightarrow> error + 'ms track)
     \<Rightarrow> 'ms pattern \<Rightarrow> 'ms event \<Rightarrow> int \<Rightarrow> ('ms pattern) result" where
  "sort_events tapp pattern event index =
     (case getitem (tracks pattern) (track_index pattern) of
        Inl err \<Rightarrow> Inl err
      | Inr trk \<Rightarrow>
          (case tapp trk event of
             Inl err \<Rightarrow> Inl err
           | Inr trk' \<Rightarrow>
               Inr (pattern\<lparr>tracks := (tracks pattern)
                      [pos (tracks pattern) (track_index pattern) := trk']\<rparr>, PyNone)))"

definition stop_track :: "'ms pattern \<Rightarrow> 'ms event \<Rightarrow> int \<Rightarrow> ('ms pattern) result" where
  "stop_track pattern event index =
     Inr (pattern\<lparr>track_index := track_index pattern + 1\<rparr>, PyNone)"

text \<open>\<open>set_division\<close> is bound to a track that is added to a pattern: its event is the track.\<close>

definition set_division :: "'ms pattern \<Rightarrow> 'ms track \<Rightarrow> int \<Rightarrow> ('ms track) result" where
  "set_division container event index =
     (case priv_division container of
        None \<Rightarrow> Inl AttributeError
      | Some d \<Rightarrow> Inr (event\<lparr>division := d\<rparr>, PyTrue))"

subsection \<open>Timing handlers of a track\<close>

text \<open>
  The converters \<open>de_to_ms\<close> and \<open>ms_to_de\<close> and the clock \<open>ytime\<close> come from
  \<open>ymidi.misc\<close>, outside the module: they are parameters of the handlers that call them
  (for the clock, the value it returns).
\<close>

definition event_tick :: "'ms track \<Rightarrow> 'ms event \<Rightarrow> int \<Rightarrow> ('ms event) result" where
  "event_tick container event index =
     (if index > 0 then
        (case getitem (events container) (index - 1) of
           Inl err \<Rightarrow> Inl err
         | Inr prev \<Rightarrow> Inr (event\<lparr>tick := tick prev + delta event\<rparr>, PyNone))
      else Inr (event\<lparr>tick := 0 + delta event\<rparr>, PyNone))"

definition event_time ::
  "(int \<Rightarrow> int \<Rightarrow> int \<Rightarrow> error + 'ms)
     \<Rightarrow> ('ms::{zero,plus}) track \<Rightarrow> 'ms event \<Rightarrow> int \<Rightarrow> ('ms event) result" where
  "event_time de_to_ms container event index =
     (case (if index > 0 then
              (case getitem (events container) (index - 1) of
                 Inl err \<Rightarrow> Inl err
               | Inr prev \<Rightarrow> Inr (time prev))
            else Inr 0) of
        Inl err \<Rightarrow> Inl err
      | Inr offset \<Rightarrow>
          (case de_to_ms (delta event) (division container) (priv_mpb container) of
             Inl err \<Rightarrow> Inl err
           | Inr ms \<Rightarrow> Inr (event\<lparr>time := offset + ms\<rparr>, PyNone)))"

definition event_delta_time ::
  "(int \<Rightarrow> int \<Rightarrow> int \<Rightarrow> error + 'ms)
     \<Rightarrow> 'ms track \<Rightarrow> 'ms event \<Rightarrow> int \<Rightarrow> ('ms event) result" where
  "event_delta_time de_to_ms container event index =
     (case de_to_ms (delta event) (division container) (priv_mpb container) of
        Inl err \<Rightarrow> Inl err
      | Inr ms \<Rightarrow> Inr (event\<lparr>delta_time := ms\<rparr>, PyNone))"

text \<open>
  \<open>determine_delta\<close>. The values before the event are those of \<open>container[-1]\<close>, the
  last event of the track, whatever the index. The absolute-time branch passes
  \<open>container.track\<close> where the millisecond branch passes \<open>container.division\<close>. The
  last two exits are the \<open>return\<close> for valid time identifiers and the end of the
  function body below the TODO comment.
\<close>

definition before ::
  "('ms::zero) track \<Rightarrow> error + int \<times> 'ms" where
  "before container =
     (if length (events container) > 0 then
        (case getitem (events container) (- 1) of
           Inl err \<Rightarrow> Inl err
         | Inr l \<Rightarrow> Inr (tick l, time l))
      else Inr (0, 0))"

definition determine_delta ::
  "('ms \<Rightarrow> int \<Rightarrow> int \<Rightarrow> error + int)
     \<Rightarrow> ('ms::{zero,minus,ord}) track \<Rightarrow> 'ms event \<Rightarrow> int \<Rightarrow> ('ms event) result" where
  "determine_delta ms_to_de container event index =
     (if delta event \<noteq> 0 then Inr (event, PyNone)
      else if delta_time event \<noteq> 0 then
        (case ms_to_de (delta_time event) (division container) (tempo container) of
           Inl err \<Rightarrow> Inl err
         | Inr d \<Rightarrow> Inr (event\<lparr>delta := d\<rparr>, PyNone))
      else
        (case before container of
           Inl err \<Rightarrow> Inl err
         | Inr (tick_before, time_before) \<Rightarrow>
             (if tick_before \<le> tick event then
                Inr (event\<lparr>delta := tick event - tick_before\<rparr>, PyNone)
              else if time_before \<le> time event then
                (case track container of
                   None \<Rightarrow> Inl AttributeError
                 | Some tr \<Rightarrow>
                     (case ms_to_de (time event - time_before) tr (tempo container) of
                        Inl err \<Rightarrow> Inl err
                      | Inr d \<Rightarrow> Inr (event\<lparr>delta := d\<rparr>, PyNone)))
              else if time event = 0 \<and> tick event = 0 then Inr (event, PyNone)
              else Inr (event, PyNone))))"

text \<open>
  \<open>rehandle\<close>. The method \<open>container.rehandle()\<close> and the membership test behind
  \<open>event in container\<close> are declared outside the module, with the classes that decide
  whether two events are the same: \<open>rh\<close> is that method and \<open>contains container event\<close>
  the result of the test.
\<close>

definition rehandle ::
  "('ms track \<Rightarrow> error + 'ms track) \<Rightarrow> ('ms track \<Rightarrow> 'ms event \<Rightarrow> bool)
     \<Rightarrow> 'ms track \<Rightarrow> 'ms event \<Rightarrow> int \<Rightarrow> ('ms track) result" where
  "rehandle rh contains container event index =
     (if index < int (length (events container)) \<and> \<not> contains container event then
        (case rh container of
           Inl err \<Rightarrow> Inl err
         | Inr container' \<Rightarrow> Inr (container', PyNone))
      else Inr (container, PyNone))"

definition time_profile ::
  "'ms \<Rightarrow> ('ms::minus) track \<Rightarrow> 'ms event \<Rightarrow> int \<Rightarrow> ('ms event) result" where
  "time_profile current container event index =
     Inr (event\<lparr>exit_time := current, exit_delta := current - start_time container\<rparr>, PyNone)"

subsection \<open>The cursor invariant of a pattern\<close>

text \<open>The invariant the data model states for the cursor: \<open>0 \<le> track_index \<le> length(tracks)\<close>.\<close>

definition cursor_ok :: "'ms pattern \<Rightarrow> bool" where
  "cursor_ok pattern =
     (0 \<le> track_index pattern \<and> track_index pattern \<le> int (length (tracks pattern)))"

subsection \<open>Collaborators and sample objects for concrete evaluation\<close>

text \<open>
  Modelled from the spec: the converters of \<open>ymidi.misc\<close>, which the module imports
  and does not define. \<open>ticks_to_ms\<close> is \<open>ticks * microseconds_per_beat / division /
  1000\<close> and \<open>ms_to_ticks\<close> its inverse, rounded down; a zero divisor raises.
\<close>

definition ticks_to_ms :: "int \<Rightarrow> int \<Rightarrow> int \<Rightarrow> error + real" where
  "ticks_to_ms ticks dv mpb =
     (if dv = 0 then Inl ZeroDivisionError
      else Inr (real_of_int (ticks * mpb) / real_of_int dv / 1000))"

definition ms_to_ticks :: "real \<Rightarrow> int \<Rightarrow> int \<Rightarrow> error + int" where
  "ms_to_ticks ms dv mpb =
     (if mpb = 0 then Inl ZeroDivisionError
      else Inr \<lfloor>ms * 1000 * real_of_int dv / real_of_int mpb\<rfloor>)"

text \<open>
  Modelled from the spec: the append of the container primitive, for a track (the
  event is stored at the end) and for a pattern (a track arriving as a unit goes
  through \<open>set_division\<close> and is stored at the end).
\<close>

definition track_append :: "'ms track \<Rightarrow> 'ms event \<Rightarrow> error + 'ms track" where
  "track_append trk event = Inr (trk\<lparr>events := events trk @ [event]\<rparr>)"

definition pattern_append :: "'ms pattern \<Rightarrow> 'ms track \<Rightarrow> error + 'ms pattern" where
  "pattern_append pattern trk =
     (case set_division pattern trk (int (length (tracks pattern))) of
        Inl err \<Rightarrow> Inl err
      | Inr (trk', v) \<Rightarrow> Inr (pattern\<lparr>tracks := tracks pattern @ [trk']\<rparr>))"

text \<open>
  A stand-in for \<open>Track.rehandle\<close> that leaves a mark on the track it is called on, so
  that a call shows in the result.
\<close>

definition rehandle_mark :: "'ms track \<Rightarrow> error + 'ms track" where
  "rehandle_mark trk = Inr (trk\<lparr>name := ''rehandled''\<rparr>)"

text \<open>
  A stand-in for the membership test of a track: an event is held when one of the
  held events has the same fields.
\<close>

definition holds_equal :: "'ms track \<Rightarrow> 'ms event \<Rightarrow> bool" where
  "holds_equal trk event = (event \<in> set (events trk))"

text \<open>
  Sample objects: an event with every timing field zero, an empty track at 480
  ticks per beat and 500000 microseconds per beat that has neither a \<open>msb\<close> nor a
  \<open>track\<close> attribute, and an empty pattern with its cursor at 0 whose \<open>_division\<close>
  attribute is 480.
\<close>

definition sample_event :: "kind \<Rightarrow> real event" where
  "sample_event k =
     \<lparr>delta = 0, delta_time = 0, tick = 0, time = 0, exit_time = 0, exit_delta = 0, kind = k\<rparr>"

definition sample_track :: "real track" where
  "sample_track =
     \<lparr>events = [], name = [], instrument = [], tempo = 500000, priv_mpb = 500000,
      msb = None, division = 480, track = None, timesig_num = 4, timesig_den = 4,
      start_time = 0\<rparr>"

definition sample_pattern :: "real pattern" where
  "sample_pattern =
     \<lparr>tracks = [], divisions = 480, priv_division = Some 480, track_index = 0\<rparr>"

section \<open>Properties\<close>

subsection \<open>Lookups and indexing\<close>

lemma load_global_Pattern: "load_global ''Pattern'' = Inl NameError"
  by (simp add: load_global_def module_globals_def TYPE_CHECKING_def)

lemma load_global_Track: "load_global ''Track'' = Inl NameError"
  by (simp add: load_global_def module_globals_def TYPE_CHECKING_def)

lemma getitem_last: "xs \<noteq> [] \<Longrightarrow> getitem xs (- 1) = Inr (last xs)"
  by (cases xs rule: rev_cases) (auto simp: getitem_def nth_append)

lemma getitem_in_range:
  "0 \<le> i \<Longrightarrow> i < int (length xs) \<Longrightarrow> getitem xs i = Inr (xs ! nat i)"
  by (simp add: getitem_def)

lemma getitem_Inr_bounds:
  assumes "getitem xs i = Inr x"
  shows "pos xs i < length xs"
  using assms by (auto simp: getitem_def pos_def split: if_splits)

lemma before_empty: "events c = [] \<Longrightarrow> before c = Inr (0, 0)"
  by (simp add: before_def)

lemma before_last:
  "events c \<noteq> [] \<Longrightarrow> before c = Inr (tick (last (events c)), time (last (events c)))"
  by (simp add: before_def getitem_last)

lemma before_total: "\<exists>tb mb. before c = Inr (tb, mb)"
  by (cases "events c = []") (simp_all add: before_empty before_last)

subsection \<open>Reverse derivation: \<open>determine_delta\<close>\<close>

text \<open>The branches of \<open>determine_delta\<close> that do not depend on the absolute time.\<close>

lemma determine_delta_resolved:
  "delta event \<noteq> 0 \<Longrightarrow> determine_delta ms_to_de container event index = Inr (event, PyNone)"
  by (simp add: determine_delta_def)

lemma determine_delta_from_delta_time:
  assumes "delta event = 0" and "delta_time event \<noteq> 0"
    and "ms_to_de (delta_time event) (division container) (tempo container) = Inr d"
  shows "determine_delta ms_to_de container event index = Inr (event\<lparr>delta := d\<rparr>, PyNone)"
  using assms by (simp add: determine_delta_def)

lemma determine_delta_from_tick:
  assumes "delta event = 0" and "delta_time event = 0"
    and "before container = Inr (tick_before, time_before)"
    and "tick_before \<le> tick event"
  shows "determine_delta ms_to_de container event index =
           Inr (event\<lparr>delta := tick event - tick_before\<rparr>, PyNone)"
  using assms by (simp add: determine_delta_def)

lemma determine_delta_from_time:
  assumes "delta event = 0" and "delta_time event = 0"
    and "before container = Inr (tick_before, time_before)"
    and "\<not> tick_before \<le> tick event" and "time_before \<le> time event"
  shows "determine_delta ms_to_de container event index =
           (case track container of
              None \<Rightarrow> Inl AttributeError
            | Some tr \<Rightarrow>
                (case ms_to_de (time event - time_before) tr (tempo container) of
                   Inl err \<Rightarrow> Inl err
                 | Inr d \<Rightarrow> Inr (event\<lparr>delta := d\<rparr>, PyNone)))"
  using assms by (simp add: determine_delta_def)

lemma determine_delta_falls_through:
  assumes "delta event = 0" and "delta_time event = 0"
    and "before container = Inr (tick_before, time_before)"
    and "\<not> tick_before \<le> tick event" and "\<not> time_before \<le> time event"
  shows "determine_delta ms_to_de container event index = Inr (event, PyNone)"
  using assms by (simp add: determine_delta_def)

lemma determine_delta_empty_track:
  "determine_delta ms_to_ticks sample_track ((sample_event OtherEvent)\<lparr>tick := 100\<rparr>) 0
     = Inr ((sample_event OtherEvent)\<lparr>tick := 100, delta := 100\<rparr>, PyNone)"
  by (simp add: determine_delta_def before_empty sample_track_def sample_event_def)

text \<open>
  Claim C1. \<open>determine_delta\<close> is to evaluate its rules in order and, in the
  absolute-time rule (3b), to set \<open>delta = ms_to_ticks(event.time - previous.time,
  division, tempo)\<close>. The code passes \<open>container.track\<close> there, not
  \<open>container.division\<close>. On a track at division 480 and tempo 500000 whose last
  event is at tick 10, time 0, an event at tick 3, time 1000 with no delta reaches
  rule 3b: the handler raises \<open>AttributeError\<close> when the track has no attribute
  \<open>track\<close>, and computes 192 ticks from a \<open>track\<close> attribute of 96, where the rule
  with the division gives 960 ticks.
\<close>

theorem determine_delta_absolute_time_branch:
  "determine_delta ms_to_ticks
     (sample_track\<lparr>events := [(sample_event OtherEvent)\<lparr>tick := 10\<rparr>], track := None\<rparr>)
     ((sample_event OtherEvent)\<lparr>tick := 3, time := 1000\<rparr>) 1 = Inl AttributeError
   \<and> determine_delta ms_to_ticks
     (sample_track\<lparr>events := [(sample_event OtherEvent)\<lparr>tick := 10\<rparr>], track := Some 96\<rparr>)
     ((sample_event OtherEvent)\<lparr>tick := 3, time := 1000\<rparr>) 1
       = Inr ((sample_event OtherEvent)\<lparr>tick := 3, time := 1000, delta := 192\<rparr>, PyNone)
   \<and> ms_to_ticks (1000 - 0) (division sample_track) (tempo sample_track) = Inr 960"
  by (simp add: determine_delta_def before_last sample_track_def sample_event_def ms_to_ticks_def)

text \<open>
  Claim C2. When no rule applies (case 3d) \<open>determine_delta\<close> is to surface an error.
  The code reaches the end of its body below the TODO comment and returns: on a
  track whose last event is at tick 10, time 10, an event at tick 5, time 5 with no
  delta comes back unchanged, its delta still 0, with return value \<open>None\<close>.
\<close>

theorem determine_delta_unresolvable_silent:
  "determine_delta ms_to_ticks
     (sample_track\<lparr>events := [(sample_event OtherEvent)\<lparr>tick := 10, time := 10\<rparr>]\<rparr>)
     ((sample_event OtherEvent)\<lparr>tick := 5, time := 5\<rparr>) 1
       = Inr ((sample_event OtherEvent)\<lparr>tick := 5, time := 5\<rparr>, PyNone)
   \<and> delta ((sample_event OtherEvent)\<lparr>tick := 5, time := 5\<rparr>) = 0"
  by (simp add: determine_delta_def before_last sample_track_def sample_event_def)

subsection \<open>Forward derivation\<close>

text \<open>
  Claim C3. For an insertion at an index \<open>i\<close> of the track (\<open>0 \<le> i \<le> length\<close>) where
  the conversion of the event's delta returns \<open>ms\<close>: \<open>event_tick\<close> sets the tick to
  the tick of the event at \<open>i - 1\<close> (0 when \<open>i = 0\<close>) plus the delta, \<open>event_time\<close> sets
  the time to the time of the event at \<open>i - 1\<close> (0 when \<open>i = 0\<close>) plus \<open>ms\<close>, and
  \<open>event_delta_time\<close> sets the delta time to \<open>ms\<close>; \<open>ms\<close> is the conversion of the
  delta at the track's division and microseconds per beat.
\<close>

theorem forward_derivation:
  assumes "0 \<le> index" and "index \<le> int (length (events container))"
    and "de_to_ms (delta event) (division container) (priv_mpb container) = Inr ms"
  shows "event_tick container event index =
           Inr (event\<lparr>tick := (if index = 0 then 0 else tick (events container ! nat (index - 1)))
                                + delta event\<rparr>, PyNone)
       \<and> event_time de_to_ms container event index =
           Inr (event\<lparr>time := (if index = 0 then 0 else time (events container ! nat (index - 1)))
                                + ms\<rparr>, PyNone)
       \<and> event_delta_time de_to_ms container event index =
           Inr (event\<lparr>delta_time := ms\<rparr>, PyNone)"
proof (cases "index = 0")
  case True
  with assms(3) show ?thesis
    by (simp add: event_tick_def event_time_def event_delta_time_def)
next
  case False
  with assms(1,2) have "0 \<le> index - 1" and "index - 1 < int (length (events container))"
    by simp_all
  then have "getitem (events container) (index - 1) = Inr (events container ! nat (index - 1))"
    by (rule getitem_in_range)
  with False assms show ?thesis
    by (simp add: event_tick_def event_time_def event_delta_time_def)
qed

theorem forward_derivation_witness:
  "event_tick (sample_track\<lparr>events := [sample_event OtherEvent]\<rparr>)
     ((sample_event OtherEvent)\<lparr>delta := 480\<rparr>) 1
       = Inr ((sample_event OtherEvent)\<lparr>delta := 480, tick := 480\<rparr>, PyNone)
   \<and> event_time ticks_to_ms (sample_track\<lparr>events := [sample_event OtherEvent]\<rparr>)
     ((sample_event OtherEvent)\<lparr>delta := 480\<rparr>) 1
       = Inr ((sample_event OtherEvent)\<lparr>delta := 480, time := 500\<rparr>, PyNone)
   \<and> event_delta_time ticks_to_ms (sample_track\<lparr>events := [sample_event OtherEvent]\<rparr>)
     ((sample_event OtherEvent)\<lparr>delta := 480\<rparr>) 1
       = Inr ((sample_event OtherEvent)\<lparr>delta := 480, delta_time := 500\<rparr>, PyNone)"
proof -
  let ?c = "sample_track\<lparr>events := [sample_event OtherEvent]\<rparr>"
  let ?e = "(sample_event OtherEvent)\<lparr>delta := 480\<rparr>"
  have a: "(0::int) \<le> 1" by simp
  have b: "(1::int) \<le> int (length (events ?c))" by simp
  have c: "ticks_to_ms (delta ?e) (division ?c) (priv_mpb ?c) = Inr 500"
    by (simp add: ticks_to_ms_def sample_track_def sample_event_def)
  show ?thesis
    using forward_derivation [of 1 ?c ticks_to_ms ?e 500, OF a b c]
    by (simp add: sample_event_def)
qed

subsection \<open>The rehandle check\<close>

text \<open>
  Claim C4. \<open>rehandle\<close> calls the container's re-resolution pass if and only if the
  index is strictly less than the length of the container and the event is not a
  member of it, whatever the membership test of the container is: under that
  condition its result is the container the pass returns, and in every other case
  the container comes back unchanged, the pass not being called.
\<close>

theorem rehandle_trigger:
  "(index < int (length (events container)) \<and> \<not> contains container event \<longrightarrow>
      rehandle rh contains container event index =
        (case rh container of Inl err \<Rightarrow> Inl err | Inr container' \<Rightarrow> Inr (container', PyNone)))
   \<and> (\<not> (index < int (length (events container)) \<and> \<not> contains container event) \<longrightarrow>
      rehandle rh contains container event index = Inr (container, PyNone))"
  by (simp add: rehandle_def)

theorem rehandle_trigger_witness:
  "rehandle rehandle_mark holds_equal
     (sample_track\<lparr>events := [sample_event OtherEvent, (sample_event OtherEvent)\<lparr>tick := 10\<rparr>]\<rparr>)
     ((sample_event OtherEvent)\<lparr>tick := 5\<rparr>) 1
     = Inr (sample_track\<lparr>events := [sample_event OtherEvent, (sample_event OtherEvent)\<lparr>tick := 10\<rparr>],
                        name := ''rehandled''\<rparr>, PyNone)
   \<and> rehandle rehandle_mark holds_equal
     (sample_track\<lparr>events := [sample_event OtherEvent, (sample_event OtherEvent)\<lparr>tick := 10\<rparr>]\<rparr>)
     ((sample_event OtherEvent)\<lparr>tick := 5\<rparr>) 2
     = Inr (sample_track\<lparr>events := [sample_event OtherEvent, (sample_event OtherEvent)\<lparr>tick := 10\<rparr>]\<rparr>,
            PyNone)
   \<and> rehandle rehandle_mark holds_equal
     (sample_track\<lparr>events := [sample_event OtherEvent, (sample_event OtherEvent)\<lparr>tick := 10\<rparr>]\<rparr>)
     ((sample_event OtherEvent)\<lparr>tick := 10\<rparr>) 1
     = Inr (sample_track\<lparr>events := [sample_event OtherEvent, (sample_event OtherEvent)\<lparr>tick := 10\<rparr>]\<rparr>,
            PyNone)"
proof -
  let ?c = "sample_track\<lparr>events := [sample_event OtherEvent, (sample_event OtherEvent)\<lparr>tick := 10\<rparr>]\<rparr>"
  let ?new = "(sample_event OtherEvent)\<lparr>tick := 5\<rparr>"
  let ?old = "(sample_event OtherEvent)\<lparr>tick := 10\<rparr>"
  have new: "\<not> holds_equal ?c ?new" by (simp add: holds_equal_def sample_event_def)
  have old: "holds_equal ?c ?old" by (simp add: holds_equal_def)
  have len: "int (length (events ?c)) = 2" by simp
  have mark: "rehandle_mark ?c = Inr (?c\<lparr>name := ''rehandled''\<rparr>)"
    by (simp add: rehandle_mark_def)
  from rehandle_trigger [of 1 ?c holds_equal ?new rehandle_mark] new len mark
  have 1: "rehandle rehandle_mark holds_equal ?c ?new 1
             = Inr (?c\<lparr>name := ''rehandled''\<rparr>, PyNone)"
    by simp
  from rehandle_trigger [of 2 ?c holds_equal ?new rehandle_mark] len
  have 2: "rehandle rehandle_mark holds_equal ?c ?new 2 = Inr (?c, PyNone)"
    by simp
  from rehandle_trigger [of 1 ?c holds_equal ?old rehandle_mark] old
  have 3: "rehandle rehandle_mark holds_equal ?c ?old 1 = Inr (?c, PyNone)"
    by simp
  from 1 2 3 show ?thesis by simp
qed

subsection \<open>Tempo of a pattern\<close>

lemma global_tempo_never_returns: "global_tempo pattern event index = Inl NameError"
  by (simp add: global_tempo_def load_global_Pattern)

text \<open>
  Claim C5. \<open>global_tempo\<close> is to set the microseconds per beat of every track of
  the pattern to the tempo of the event. The code loops over the name \<open>Pattern\<close>,
  which is unbound when the module runs: on a pattern of two tracks and a tempo
  change to 250000 the handler raises \<open>NameError\<close> and no track is altered.
\<close>

theorem global_tempo_raises:
  "global_tempo (sample_pattern\<lparr>tracks := [sample_track, sample_track]\<rparr>)
     (sample_event (SetTempo 250000)) 0 = Inl NameError"
  by (simp add: global_tempo_def load_global_Pattern)

subsection \<open>The cursor of a pattern\<close>

lemma sort_events_keeps_cursor:
  assumes "sort_events tapp pattern event index = Inr (pattern', v)"
  shows "track_index pattern' = track_index pattern
       \<and> length (tracks pattern') = length (tracks pattern)"
  using assms by (auto simp: sort_events_def split: sum.splits)

lemma start_pattern_keeps_cursor:
  assumes "start_pattern pattern event index = Inr (pattern', v)"
  shows "track_index pattern' = track_index pattern \<and> tracks pattern' = tracks pattern"
  using assms by (auto simp: start_pattern_def split: sum.splits)

text \<open>
  Claim C6, as stated, fails: \<open>stop_track\<close> has no range check. On the empty pattern
  with its cursor at 0, where the invariant holds and no track is under the cursor,
  a track-end marker returns \<open>None\<close> and leaves the cursor at 1, past the end.
\<close>

theorem stop_track_past_end:
  "cursor_ok sample_pattern
   \<and> stop_track sample_pattern (sample_event EndOfTrack) 0
       = Inr (sample_pattern\<lparr>track_index := 1\<rparr>, PyNone)
   \<and> \<not> cursor_ok (sample_pattern\<lparr>track_index := 1\<rparr>)"
  by (simp add: cursor_ok_def stop_track_def sample_pattern_def)

text \<open>
  Claim C6, amended. \<open>stop_track\<close> raises no error: on every pattern it advances the
  cursor by one and returns \<open>None\<close>. From a pattern that satisfies
  \<open>0 \<le> track_index \<le> length(tracks)\<close> the advanced cursor satisfies it exactly when
  \<open>track_index < length(tracks)\<close> held before the marker; \<open>start_pattern\<close> and
  \<open>sort_events\<close> preserve the invariant whenever they return.
\<close>

theorem cursor_preservation:
  "stop_track pattern event index
     = Inr (pattern\<lparr>track_index := track_index pattern + 1\<rparr>, PyNone)
   \<and> (cursor_ok pattern \<longrightarrow>
        (cursor_ok (pattern\<lparr>track_index := track_index pattern + 1\<rparr>)
           \<longleftrightarrow> track_index pattern < int (length (tracks pattern))))
   \<and> (cursor_ok pattern \<and> start_pattern pattern event index = Inr (pattern', v) \<longrightarrow>
        cursor_ok pattern')
   \<and> (cursor_ok pattern \<and> sort_events tapp pattern event index = Inr (pattern'', v') \<longrightarrow>
        cursor_ok pattern'')"
proof -
  have 1: "stop_track pattern event index
     = Inr (pattern\<lparr>track_index := track_index pattern + 1\<rparr>, PyNone)"
    by (simp add: stop_track_def)
  have 2: "cursor_ok pattern \<longrightarrow>
        (cursor_ok (pattern\<lparr>track_index := track_index pattern + 1\<rparr>)
           \<longleftrightarrow> track_index pattern < int (length (tracks pattern)))"
    by (auto simp: cursor_ok_def)
  have 3: "cursor_ok pattern \<and> start_pattern pattern event index = Inr (pattern', v) \<longrightarrow>
        cursor_ok pattern'"
    using start_pattern_keeps_cursor [of pattern event index pattern' v]
    by (auto simp: cursor_ok_def)
  have 4: "cursor_ok pattern \<and> sort_events tapp pattern event index = Inr (pattern'', v') \<longrightarrow>
        cursor_ok pattern''"
    using sort_events_keeps_cursor [of tapp pattern event index pattern'' v']
    by (auto simp: cursor_ok_def)
  from 1 2 3 4 show ?thesis by blast
qed

theorem cursor_preservation_witness:
  "cursor_ok (sample_pattern\<lparr>tracks := [sample_track]\<rparr>)
   \<and> stop_track (sample_pattern\<lparr>tracks := [sample_track]\<rparr>) (sample_event (StartPattern 96 0)) 0
       = Inr (sample_pattern\<lparr>tracks := [sample_track], track_index := 1\<rparr>, PyNone)
   \<and> cursor_ok (sample_pattern\<lparr>tracks := [sample_track], track_index := 1\<rparr>)
   \<and> cursor_ok (sample_pattern\<lparr>tracks := [sample_track], divisions := 96\<rparr>)
   \<and> cursor_ok (sample_pattern
        \<lparr>tracks := [sample_track\<lparr>events := [sample_event (StartPattern 96 0)]\<rparr>]\<rparr>)"
proof -
  let ?p = "sample_pattern\<lparr>tracks := [sample_track]\<rparr>"
  let ?e = "sample_event (StartPattern 96 0)"
  have ok: "cursor_ok ?p" by (simp add: cursor_ok_def sample_pattern_def)
  have lt: "track_index ?p < int (length (tracks ?p))" by (simp add: sample_pattern_def)
  have sp: "start_pattern ?p ?e 0 = Inr (?p\<lparr>divisions := 96\<rparr>, PyNone)"
    by (simp add: start_pattern_def sample_event_def)
  have se: "sort_events track_append ?p ?e 0
              = Inr (?p\<lparr>tracks := [sample_track\<lparr>events := [?e]\<rparr>]\<rparr>, PyNone)"
    by (simp add: sort_events_def getitem_def pos_def track_append_def sample_pattern_def
        sample_track_def)
  have idx: "?p\<lparr>track_index := track_index ?p + 1\<rparr> = ?p\<lparr>track_index := 1\<rparr>"
    by (simp add: sample_pattern_def)
  from cursor_preservation
    [of ?p ?e 0 "?p\<lparr>divisions := 96\<rparr>" PyNone track_append
        "?p\<lparr>tracks := [sample_track\<lparr>events := [?e]\<rparr>]\<rparr>" PyNone]
    ok lt sp se idx
  show ?thesis by simp
qed

subsection \<open>Division of an added track\<close>




subsection \<open>Start of a pattern\<close>

lemma create_loop_raises: "create_loop mk app (Suc n) pattern = Inl NameError"
  by (simp add: load_global_Track)

lemma create_tracks_no_tracks:
  assumes "kind event = StartPattern d n" and "n \<le> 0"
  shows "create_tracks mk app pattern event index = Inr (pattern, PyNone)"
  using assms by (simp add: create_tracks_def)

text \<open>
  Claim C8. A stream-start marker is to set the divisions of the pattern and append
  \<open>num_tracks\<close> new tracks. \<open>start_pattern\<close> sets the divisions; \<open>create_tracks\<close>
  evaluates \<open>Track()\<close> in its first round, and the name \<open>Track\<close> is unbound when the
  module runs: for a marker with division 96 and 3 tracks on the empty pattern the
  handler raises \<open>NameError\<close> and the pattern holds no track.
\<close>

theorem create_tracks_raises:
  "start_pattern sample_pattern (sample_event (StartPattern 96 3)) 0
     = Inr (sample_pattern\<lparr>divisions := 96\<rparr>, PyNone)
   \<and> create_tracks sample_track pattern_append (sample_pattern\<lparr>divisions := 96\<rparr>)
       (sample_event (StartPattern 96 3)) 0 = Inl NameError"
  by (simp add: start_pattern_def create_tracks_def sample_event_def load_global_Track
      eval_nat_numeral)

subsection \<open>Metadata of a track\<close>

lemma track_name_sets_name:
  "kind event = TrackName s \<Longrightarrow> track_name trk event index = Inr (trk\<lparr>name := s\<rparr>, PyNone)"
  by (simp add: track_name_def)

lemma instrument_name_sets_instrument:
  "kind event = InstrumentName s \<Longrightarrow>
     instrument_name trk event index = Inr (trk\<lparr>instrument := s\<rparr>, PyNone)"
  by (simp add: instrument_name_def)

lemma time_signature_sets_both:
  "kind event = TimeSignature n d \<Longrightarrow>
     time_signature trk event index = Inr (trk\<lparr>timesig_den := d, timesig_num := n\<rparr>, PyNone)"
  by (simp add: time_signature_def)

lemma set_tempo_keeps_mpb:
  assumes "set_tempo trk event index = Inr (trk', v)"
  shows "priv_mpb trk' = priv_mpb trk \<and> tempo trk' = tempo trk"
  using assms by (auto simp: set_tempo_def split: sum.splits)

text \<open>
  Claim C9. A tempo change is to set the microseconds per beat that \<open>event_time\<close>
  and \<open>event_delta_time\<close> read. \<open>set_tempo\<close> assigns the attribute \<open>msb\<close>; the
  conversions read \<open>_mpb\<close>. On a track at 500000 microseconds per beat and division
  480, after a tempo change to 250000 the attributes \<open>_mpb\<close> and \<open>tempo\<close> are still
  500000 and \<open>event_delta_time\<close> gives a delta of 480 ticks 500 ms, where the new
  tempo gives 250 ms. (Name, instrument and time signature are set as claimed.)
\<close>

theorem set_tempo_writes_msb:
  "set_tempo sample_track (sample_event (SetTempo 250000)) 0
     = Inr (sample_track\<lparr>msb := Some 250000\<rparr>, PyNone)
   \<and> priv_mpb (sample_track\<lparr>msb := Some 250000\<rparr>) = 500000
   \<and> tempo (sample_track\<lparr>msb := Some 250000\<rparr>) = 500000
   \<and> event_delta_time ticks_to_ms (sample_track\<lparr>msb := Some 250000\<rparr>)
       ((sample_event OtherEvent)\<lparr>delta := 480\<rparr>) 0
       = Inr ((sample_event OtherEvent)\<lparr>delta := 480, delta_time := 500\<rparr>, PyNone)
   \<and> ticks_to_ms 480 480 250000 = Inr 250"
  by (simp add: set_tempo_def event_delta_time_def ticks_to_ms_def sample_event_def
      sample_track_def)

subsection \<open>Return values\<close>

lemma track_name_None: "\<not> returns_truthy (track_name trk event index)"
  by (simp add: track_name_def split: sum.splits)

lemma instrument_name_None: "\<not> returns_truthy (instrument_name trk event index)"
  by (simp add: instrument_name_def split: sum.splits)

lemma set_tempo_None: "\<not> returns_truthy (set_tempo trk event index)"
  by (simp add: set_tempo_def split: sum.splits)

lemma time_signature_None: "\<not> returns_truthy (time_signature trk event index)"
  by (simp add: time_signature_def split: sum.splits)

lemma global_tempo_None: "\<not> returns_truthy (global_tempo pattern event index)"
  by (simp add: global_tempo_def split: sum.splits)

lemma start_pattern_None: "\<not> returns_truthy (start_pattern pattern event index)"
  by (simp add: start_pattern_def split: sum.splits)

lemma create_tracks_None: "\<not> returns_truthy (create_tracks mk app pattern event index)"
  by (simp add: create_tracks_def split: sum.splits)

lemma sort_events_None: "\<not> returns_truthy (sort_events tapp pattern event index)"
  by (simp add: sort_events_def split: sum.splits)

lemma stop_track_None: "\<not> returns_truthy (stop_track pattern event index)"
  by (simp add: stop_track_def)

lemma event_tick_None: "\<not> returns_truthy (event_tick trk event index)"
  by (simp add: event_tick_def split: sum.splits)

lemma event_time_None: "\<not> returns_truthy (event_time de_to_ms trk event index)"
  by (simp add: event_time_def split: sum.splits)

lemma event_delta_time_None: "\<not> returns_truthy (event_delta_time de_to_ms trk event index)"
  by (simp add: event_delta_time_def split: sum.splits)

lemma determine_delta_None: "\<not> returns_truthy (determine_delta ms_to_de trk event index)"
  by (simp add: determine_delta_def split: sum.splits option.splits prod.splits)

lemma rehandle_None: "\<not> returns_truthy (rehandle rh contains trk event index)"
  by (simp add: rehandle_def split: sum.splits)

lemma time_profile_None: "\<not> returns_truthy (time_profile current trk event index)"
  by (simp add: time_profile_def)

lemma set_division_not_None: "\<not> returns_None (set_division pattern trk index)"
  by (simp add: set_division_def split: option.splits)

lemma set_division_sample_True: "returns_truthy (set_division sample_pattern sample_track 0)"
  by (simp add: set_division_def sample_pattern_def)

text \<open>
  Claim C10, as stated, fails: a handler other than \<open>set_division\<close> does not return
  \<open>None\<close> on every input, since it may raise. \<open>sort_events\<close> on the empty pattern
  indexes a pattern without tracks and raises \<open>IndexError\<close>.
\<close>

theorem sort_events_raises:
  "sort_events track_append sample_pattern (sample_event OtherEvent) 0 = Inl IndexError
   \<and> \<not> returns_None (sort_events track_append sample_pattern (sample_event OtherEvent) 0)"
  by (simp add: sort_events_def getitem_def sample_pattern_def)

text \<open>
  Claim C10, amended. Of the handlers of the module only \<open>set_division\<close> ever returns
  a value that evaluates to true (it never returns \<open>None\<close>, and it returns \<open>True\<close> on
  the sample pattern); every other handler never does: on each input it returns
  \<open>None\<close> or raises.
\<close>

theorem only_set_division_stops:
  "\<not> returns_truthy (track_name trk event index)
   \<and> \<not> returns_truthy (instrument_name trk event index)
   \<and> \<not> returns_truthy (set_tempo trk event index)
   \<and> \<not> returns_truthy (time_signature trk event index)
   \<and> \<not> returns_truthy (global_tempo pattern event index)
   \<and> \<not> returns_truthy (start_pattern pattern event index)
   \<and> \<not> returns_truthy (create_tracks mk app pattern event index)
   \<and> \<not> returns_truthy (sort_events tapp pattern event index)
   \<and> \<not> returns_truthy (stop_track pattern event index)
   \<and> \<not> returns_truthy (event_tick trk event index)
   \<and> \<not> returns_truthy (event_time de_to_ms trk event index)
   \<and> \<not> returns_truthy (event_delta_time de_to_ms trk event index)
   \<and> \<not> returns_truthy (determine_delta ms_to_de trk event index)
   \<and> \<not> returns_truthy (rehandle rh contains trk event index)
   \<and> \<not> returns_truthy (time_profile current trk event index)
   \<and> \<not> returns_None (set_division pattern trk index)
   \<and> returns_truthy (set_division sample_pattern sample_track 0)"
  by (intro conjI track_name_None instrument_name_None set_tempo_None time_signature_None
      global_tempo_None start_pattern_None create_tracks_None sort_events_None stop_track_None
      event_tick_None event_time_None event_delta_time_None determine_delta_None rehandle_None
      time_profile_None set_division_not_None set_division_sample_True)

end
